theory Spec2Isabelle
  imports Complex_Main
begin

section \<open>NeoPixel LED sign: colour primitives, strip length and per-frame mode bodies\<close>

text \<open>
  A shallow embedding of \<^verbatim>\<open>main.py\<close>, at two levels of arithmetic. Python ints are
  \<open>int\<close>, LED indices (strip positions) are \<open>nat\<close>, an RGB tuple is a triple of ints and
  the NeoPixel buffer \<^verbatim>\<open>np\<close> is a list of colours whose length is the number of LEDs;
  a store into the buffer outside its range raises \<^verbatim>\<open>IndexError\<close>, which is a value of
  the model. In this first part a Python float is a real number and every operation is
  exact. The second part repeats the floating-point code in IEEE double arithmetic, with
  each rounding written out. The exact model carries the properties that do not depend
  on rounding; every property that fixes a computed colour is stated on the double model.
\<close>


subsection \<open>Python numeric helpers\<close>

text \<open>\<^verbatim>\<open>int(x)\<close> on a float truncates towards zero.\<close>

definition py_int :: "real \<Rightarrow> int" where
  "py_int x = (if 0 \<le> x then \<lfloor>x\<rfloor> else \<lceil>x\<rceil>)"


subsection \<open>Data\<close>

type_synonym rgb = "int \<times> int \<times> int"

datatype error = IndexError

record letter_config =
  letter :: string
  leds :: "nat list"

record letter_param =
  base_color :: rgb
  phase_offset :: real

text \<open>\<^verbatim>\<open>letter_configs\<close> (lines 33-43); \<^verbatim>\<open>list(range(a, b))\<close> is \<open>[a..<b]\<close>.\<close>

definition letter_configs :: "letter_config list" where
  "letter_configs =
    [\<lparr>letter = ''A'', leds = [0..<19]\<rparr>,
     \<lparr>letter = ''W'', leds = [19..<38]\<rparr>,
     \<lparr>letter = ''A'', leds = [38..<57]\<rparr>,
     \<lparr>letter = ''R'', leds = [57..<76]\<rparr>,
     \<lparr>letter = ''E'', leds = [76..<95]\<rparr>,
     \<lparr>letter = ''N'', leds = [95..<114]\<rparr>,
     \<lparr>letter = ''E'', leds = [114..<133]\<rparr>,
     \<lparr>letter = ''S'', leds = [133..<152]\<rparr>,
     \<lparr>letter = ''S'', leds = [152..<171]\<rparr>]"

subsection \<open>Strip length (lines 46-51)\<close>

text \<open>
  The loop over the configurations, with the running value of \<^verbatim>\<open>NUM_LEDS\<close> as
  accumulator. \<^verbatim>\<open>max\<close> is only called on a non-empty list.
\<close>

fun num_leds_loop :: "letter_config list \<Rightarrow> nat \<Rightarrow> nat" where
  "num_leds_loop [] n = n"
| "num_leds_loop (cfg # cfgs) n =
     (case leds cfg of
        [] \<Rightarrow> num_leds_loop cfgs n
      | x # xs \<Rightarrow>
          (let max_led = fold max xs x
           in if max_led + 1 > n then num_leds_loop cfgs (max_led + 1)
              else num_leds_loop cfgs n))"

definition num_leds :: "letter_config list \<Rightarrow> nat" where
  "num_leds cfgs = num_leds_loop cfgs 0"

definition NUM_LEDS :: nat where
  "NUM_LEDS = num_leds letter_configs"

subsection \<open>The frame buffer\<close>

text \<open>\<^verbatim>\<open>np[i] = c\<close>: a store outside the buffer raises.\<close>

definition set_led :: "rgb list \<Rightarrow> nat \<Rightarrow> rgb \<Rightarrow> error + rgb list" where
  "set_led np i c = (if i < length np then Inr (np[i := c]) else Inl IndexError)"

text \<open>A \<^verbatim>\<open>for\<close> loop whose body updates the state or raises.\<close>

fun for_each :: "'a list \<Rightarrow> ('a \<Rightarrow> 's \<Rightarrow> error + 's) \<Rightarrow> 's \<Rightarrow> error + 's" where
  "for_each [] body st = Inr st"
| "for_each (x # xs) body st =
     (case body x st of Inl e \<Rightarrow> Inl e | Inr st' \<Rightarrow> for_each xs body st')"

subsection \<open>Colour primitives (lines 66-110)\<close>

definition blend_color :: "rgb \<Rightarrow> rgb \<Rightarrow> real \<Rightarrow> rgb" where
  "blend_color c1 c2 factor =
     (case c1 of (r1, g1, b1) \<Rightarrow> case c2 of (r2, g2, b2) \<Rightarrow>
        (py_int ((1 - factor) * of_int r1 + factor * of_int r2),
         py_int ((1 - factor) * of_int g1 + factor * of_int g2),
         py_int ((1 - factor) * of_int b1 + factor * of_int b2)))"

text \<open>Lines 92-106: chroma \<open>c\<close>, intermediate \<open>x\<close>, match \<open>m\<close> and the sector chain.\<close>

definition hsv_sector :: "real \<Rightarrow> real \<Rightarrow> real \<Rightarrow> real \<times> real \<times> real" where
  "hsv_sector h c x =
     (if 0 \<le> h \<and> h < 60 then (c, x, 0)
      else if 60 \<le> h \<and> h < 120 then (x, c, 0)
      else if 120 \<le> h \<and> h < 180 then (0, c, x)
      else if 180 \<le> h \<and> h < 240 then (0, x, c)
      else if 240 \<le> h \<and> h < 300 then (x, 0, c)
      else (c, 0, x))"




subsection \<open>Fade-letters mode (lines 116-159)\<close>

definition color_map :: "string \<rightharpoonup> rgb" where
  "color_map = map_of
     [(''A'', (255, 0, 0)), (''W'', (0, 255, 0)), (''R'', (0, 0, 255)),
      (''E'', (255, 255, 0)), (''N'', (0, 255, 255)), (''S'', (255, 0, 255))]"

text \<open>
  Lines 135-139. The draws of \<^verbatim>\<open>random.uniform(0, 2 * math.pi)\<close> are an input:
  \<open>rnd idx\<close> is the value drawn for the configuration at position \<open>idx\<close>.
\<close>

definition mk_letter_params :: "letter_config list \<Rightarrow> (nat \<Rightarrow> real) \<Rightarrow> letter_param list" where
  "mk_letter_params cfgs rnd =
     map (\<lambda>(idx, cfg).
            \<lparr>base_color = (case color_map (letter cfg) of Some c \<Rightarrow> c | None \<Rightarrow> (255, 255, 255)),
             phase_offset = rnd idx\<rparr>)
         (enumerate 0 cfgs)"

definition period :: real where
  "period = 5"







subsection \<open>Wave-effect mode (lines 161-191)\<close>

definition warm_white :: rgb where
  "warm_white = (255, 244, 229)"

definition wave_colors :: "rgb list" where
  "wave_colors = [(0, 0, 255), (0, 255, 0), (255, 255, 0)]"

definition wave_period_ms :: int where
  "wave_period_ms = 10000"

definition threshold :: real where
  "threshold = 3"



text \<open>Line 180; the index is always inside the palette.\<close>

definition wave_color :: "real \<Rightarrow> rgb" where
  "wave_color wp = wave_colors ! nat (py_int wp mod int (length wave_colors))"



section \<open>The same program in IEEE double arithmetic\<close>

text \<open>
  A Python float is an IEEE 754 binary64 number. In this section the finite doubles
  are the real numbers they denote, and every arithmetic operation returns its exact
  result rounded to the nearest double, ties to even, with gradual underflow (\<open>fl\<close>).
  Overflow to infinity and NaN are not modelled: the operations below are used on
  values far inside the range of the doubles. Comparisons, \<^verbatim>\<open>abs\<close> and the C function
  \<^verbatim>\<open>fmod\<close> are exact. The definitions of this section carry the suffix \<open>_d\<close>; they
  repeat the definitions above operation by operation, with the rounding written out.
\<close>

subsection \<open>Rounding to the nearest double\<close>

definition rne :: "real \<Rightarrow> int" where
  "rne x = (let f = \<lfloor>x\<rfloor>; d = x - of_int f
            in if d < 1 / 2 then f else if 1 / 2 < d then f + 1
               else if even f then f else f + 1)"

definition pow2 :: "int \<Rightarrow> real" where
  "pow2 e = (if 0 \<le> e then 2 ^ nat e else 1 / 2 ^ nat (- e))"

definition ulp_exp :: "real \<Rightarrow> int" where
  "ulp_exp x = max (\<lfloor>log 2 \<bar>x\<bar>\<rfloor> - 52) (- 1074)"

definition fl :: "real \<Rightarrow> real" where
  "fl x = (if x = 0 then 0
           else of_int (rne (x / pow2 (ulp_exp x))) * pow2 (ulp_exp x))"

text \<open>\<^verbatim>\<open>math.pi\<close>, the double nearest to \<open>\<pi>\<close>.\<close>

definition pi_d :: real where
  "pi_d = 884279719003555 / 281474976710656"

text \<open>
  \<^verbatim>\<open>math.sin\<close> belongs to the platform's C library and is a parameter \<open>fs\<close> of the
  definitions that call it. The correctly rounded sine is one such function.
\<close>

definition sin_cr :: "real \<Rightarrow> real" where
  "sin_cr x = fl (sin x)"

text \<open>
  C's \<^verbatim>\<open>fmod\<close> (exact, sign of the dividend) and Python's float \<^verbatim>\<open>%\<close> built on
  it: a non-zero remainder whose sign differs from the divisor's has the divisor added.
\<close>

definition c_fmod :: "real \<Rightarrow> real \<Rightarrow> real" where
  "c_fmod a b = a - b * of_int (py_int (a / b))"

definition py_fmod_d :: "real \<Rightarrow> real \<Rightarrow> real" where
  "py_fmod_d a b =
     (let m = c_fmod a b
      in if m \<noteq> 0 \<and> ((b < 0) \<noteq> (m < 0)) then fl (m + b) else m)"

subsection \<open>Colour primitives in doubles (lines 66-110)\<close>

definition blend_color_d :: "rgb \<Rightarrow> rgb \<Rightarrow> real \<Rightarrow> rgb" where
  "blend_color_d c1 c2 factor =
     (case c1 of (r1, g1, b1) \<Rightarrow> case c2 of (r2, g2, b2) \<Rightarrow>
        (py_int (fl (fl (fl (1 - factor) * fl (of_int r1)) + fl (factor * fl (of_int r2)))),
         py_int (fl (fl (fl (1 - factor) * fl (of_int g1)) + fl (factor * fl (of_int g2)))),
         py_int (fl (fl (fl (1 - factor) * fl (of_int b1)) + fl (factor * fl (of_int b2))))))"

definition hsv_x_d :: "real \<Rightarrow> real \<Rightarrow> real" where
  "hsv_x_d h c = fl (c * fl (1 - \<bar>fl (py_fmod_d (fl (h / 60)) 2 - 1)\<bar>))"

definition hsv_to_rgb_d :: "real \<Rightarrow> real \<Rightarrow> real \<Rightarrow> rgb" where
  "hsv_to_rgb_d h s v =
     (let c = fl (v * s);
          x = hsv_x_d h c;
          m = fl (v - c)
      in case hsv_sector h c x of (rp, gp, bp) \<Rightarrow>
           (py_int (fl (fl (rp + m) * 255)), py_int (fl (fl (gp + m) * 255)),
            py_int (fl (fl (bp + m) * 255))))"

subsection \<open>Fade-letters mode in doubles (lines 141-157)\<close>

definition elapsed_s_d :: "int \<Rightarrow> int \<Rightarrow> real" where
  "elapsed_s_d current_time start_time = fl (fl (of_int (current_time - start_time)) / 1000)"

definition brightness_d :: "(real \<Rightarrow> real) \<Rightarrow> real \<Rightarrow> real \<Rightarrow> real" where
  "brightness_d fs t phase =
     fl (fl (fs (fl (fl (fl (2 * pi_d) * fl (t / period)) + phase)) + 1) / 2)"

definition scaled_color_d :: "rgb \<Rightarrow> real \<Rightarrow> rgb" where
  "scaled_color_d base b =
     (case base of (r, g, bl) \<Rightarrow>
        (py_int (fl (fl (of_int r) * b)), py_int (fl (fl (of_int g) * b)),
         py_int (fl (fl (of_int bl) * b))))"

definition letter_color_d :: "(real \<Rightarrow> real) \<Rightarrow> letter_param \<Rightarrow> real \<Rightarrow> rgb" where
  "letter_color_d fs params t =
     (let b = brightness_d fs t (phase_offset params)
      in scaled_color_d (base_color params) b)"

definition fade_letter_d ::
  "(real \<Rightarrow> real) \<Rightarrow> letter_param list \<Rightarrow> real \<Rightarrow> nat \<times> letter_config \<Rightarrow> rgb list
     \<Rightarrow> error + rgb list" where
  "fade_letter_d fs letter_params t ic np =
     (case ic of (idx, cfg) \<Rightarrow>
        if idx < length letter_params then
          (let sc = letter_color_d fs (letter_params ! idx) t
           in for_each (leds cfg) (\<lambda>led np'. set_led np' led sc) np)
        else Inl IndexError)"

definition fade_frame_d ::
  "(real \<Rightarrow> real) \<Rightarrow> letter_config list \<Rightarrow> letter_param list \<Rightarrow> int \<Rightarrow> int \<Rightarrow> rgb list
     \<Rightarrow> error + rgb list" where
  "fade_frame_d fs cfgs letter_params start_time current_time np =
     (let t = elapsed_s_d current_time start_time
      in for_each (enumerate 0 cfgs) (fade_letter_d fs letter_params t) np)"

subsection \<open>Wave-effect mode in doubles (lines 175-189)\<close>

text \<open>The quotient of two ints is the correctly rounded true quotient.\<close>

definition wave_phase_d :: "int \<Rightarrow> real" where
  "wave_phase_d current_time =
     fl (of_int (current_time mod wave_period_ms) / of_int wave_period_ms)"

definition wave_pos_d :: "nat \<Rightarrow> int \<Rightarrow> real" where
  "wave_pos_d n current_time = fl (wave_phase_d current_time * fl (of_nat n))"

definition wave_led_d :: "real \<Rightarrow> rgb \<Rightarrow> nat \<Rightarrow> rgb" where
  "wave_led_d wp wc i =
     (let distance = \<bar>fl (fl (of_nat i) - wp)\<bar>
      in if distance < threshold
         then (let factor = fl (1 - fl (distance / threshold))
               in blend_color_d warm_white wc factor)
         else warm_white)"

definition wave_frame_d :: "nat \<Rightarrow> int \<Rightarrow> rgb list \<Rightarrow> error + rgb list" where
  "wave_frame_d n current_time np =
     (let wp = wave_pos_d n current_time;
          wc = wave_color wp
      in for_each [0..<n] (\<lambda>i np'. set_led np' i (wave_led_d wp wc i)) np)"

section \<open>Properties\<close>

subsection \<open>Helper facts\<close>

lemma py_int_of_int: "py_int (of_int k) = k"
  by (simp add: py_int_def)

subsection \<open>Rounding\<close>

lemma pow2_powr: "pow2 e = (2::real) powr of_int e"
proof (cases "0 \<le> e")
  case True
  then show ?thesis by (simp add: pow2_def powr_realpow [symmetric])
next
  case False
  then have "(2::real) powr of_int e = 1 / 2 powr of_int (- e)"
    by (simp add: powr_minus field_simps)
  also have "2 powr of_int (- e) = (2::real) ^ nat (- e)"
    using False by (simp add: powr_realpow [symmetric])
  finally show ?thesis using False by (simp add: pow2_def)
qed

lemma pow2_pos: "0 < pow2 e"
  by (simp add: pow2_powr)

lemma pow2_add: "pow2 (a + b) = pow2 a * pow2 b"
  by (simp add: pow2_powr powr_add)


lemma pow2_nonneg_int: "0 \<le> e \<Longrightarrow> pow2 e = of_int (2 ^ nat e)"
  by (simp add: pow2_def)

lemma fl_zero: "fl 0 = 0"
  by (simp add: fl_def)

lemma rne_of_int: "rne (of_int n) = n"
  by (simp add: rne_def)

lemma rne_nonneg: "0 \<le> x \<Longrightarrow> 0 \<le> rne x"
  by (auto simp: rne_def Let_def)



lemma ulp_exp_at:
  assumes "pow2 k \<le> \<bar>x\<bar>" "\<bar>x\<bar> < pow2 (k + 1)" "- 1022 \<le> k"
  shows "ulp_exp x = k - 52"
proof -
  have pos: "0 < \<bar>x\<bar>" using assms(1) pow2_pos [of k] by linarith
  have "\<lfloor>log 2 \<bar>x\<bar>\<rfloor> = k"
    using assms(1,2) pos by (simp add: floor_log_eq_powr_iff pow2_powr)
  then show ?thesis using assms(3) by (simp add: ulp_exp_def)
qed

lemma fl_eval:
  assumes "pow2 k \<le> \<bar>x\<bar>" "\<bar>x\<bar> < pow2 (k + 1)" "- 1022 \<le> k"
    and "rne (x / pow2 (k - 52)) = n" and "y = of_int n * pow2 (k - 52)"
  shows "fl x = y"
proof -
  have "x \<noteq> 0" using assms(1) pow2_pos [of k] by auto
  then show ?thesis
    using ulp_exp_at [OF assms(1-3)] assms(4,5) by (simp add: fl_def)
qed

lemma fl_nonneg: "0 \<le> x \<Longrightarrow> 0 \<le> fl x"
  using rne_nonneg [of "x / pow2 (ulp_exp x)"] pow2_pos [of "ulp_exp x"]
  by (simp add: fl_def)

lemma ulp_exp_le:
  assumes "x \<noteq> 0" "\<bar>x\<bar> < pow2 (e + 53)" "- 1074 \<le> e"
  shows "ulp_exp x \<le> e"
proof -
  have "log 2 \<bar>x\<bar> < of_int (e + 53)"
    using assms(1,2) by (simp add: pow2_powr log_less_iff)
  then have "\<lfloor>log 2 \<bar>x\<bar>\<rfloor> < e + 53" by (simp add: floor_less_iff)
  then show ?thesis using assms(3) by (simp add: ulp_exp_def)
qed

text \<open>Values on the grid of their own exponent are not changed by rounding.\<close>

lemma fl_exact:
  assumes "\<bar>m\<bar> < 2 ^ 53" "- 1074 \<le> e"
  shows "fl (of_int m * pow2 e) = of_int m * pow2 e"
proof (cases "m = 0")
  case True
  then show ?thesis by (simp add: fl_zero)
next
  case False
  let ?x = "of_int m * pow2 e"
  have nz: "?x \<noteq> 0" using False pow2_pos [of e] by simp
  have "\<bar>?x\<bar> = of_int \<bar>m\<bar> * pow2 e" using pow2_pos [of e] by (simp add: abs_mult)
  also have "\<dots> < of_int (2 ^ 53) * pow2 e"
    using assms(1) pow2_pos [of e] by (intro mult_strict_right_mono) simp_all
  also have "\<dots> = pow2 (e + 53)"
  proof -
    have "pow2 53 = of_int (2 ^ 53)" by (simp add: pow2_def)
    then show ?thesis using pow2_add [of e 53] by simp
  qed
  finally have "\<bar>?x\<bar> < pow2 (e + 53)" .
  from ulp_exp_le [OF nz this assms(2)] have le: "ulp_exp ?x \<le> e" .
  define E where "E = ulp_exp ?x"
  have "pow2 e = pow2 (e - E) * pow2 E" using pow2_add [of "e - E" E] by simp
  also have "pow2 (e - E) = of_int (2 ^ nat (e - E))"
    using le by (simp add: pow2_nonneg_int E_def)
  finally have pe: "pow2 e = of_int (2 ^ nat (e - E)) * pow2 E" .
  have "?x / pow2 E = of_int (m * 2 ^ nat (e - E))"
    using pow2_pos [of E] by (simp add: pe)
  then have "rne (?x / pow2 E) = m * 2 ^ nat (e - E)" by (simp only: rne_of_int)
  then have "fl ?x = of_int (m * 2 ^ nat (e - E)) * pow2 E"
    using nz by (simp add: fl_def E_def)
  also have "\<dots> = ?x" by (simp add: pe)
  finally show ?thesis .
qed

lemma fl_of_int: "\<bar>m\<bar> < 2 ^ 53 \<Longrightarrow> fl (of_int m) = of_int m"
  using fl_exact [of m 0] by (simp add: pow2_def)


lemma fl_one: "fl 1 = 1"
  using fl_of_int [of 1] by simp







subsection \<open>Blending\<close>

text \<open>
  Claim C5. For all colours \<open>c1\<close>, \<open>c2\<close> with integer channels, \<open>blend_color c1 c2 0\<close> is
  exactly \<open>c1\<close> and \<open>blend_color c1 c2 1\<close> is exactly \<open>c2\<close>. The factor is not clamped:
  with factor \<open>2\<close> the blend of black towards white extrapolates to channel value \<open>510\<close>,
  and with factor \<open>-1\<close> to \<open>-255\<close>.
\<close>

theorem blend_color_endpoints:
  "blend_color c1 c2 0 = c1
   \<and> blend_color c1 c2 1 = c2
   \<and> blend_color (0, 0, 0) (255, 255, 255) 2 = (510, 510, 510)
   \<and> blend_color (0, 0, 0) (255, 255, 255) (- 1) = (- 255, - 255, - 255)"
  by (cases c1; cases c2) (simp add: blend_color_def py_int_def)

subsection \<open>HSV conversion\<close>








subsection \<open>Strip length\<close>

lemma fold_max_Max: "fold max xs (x::nat) = Max (set (x # xs))"
  by (rule Max.set_eq_fold [symmetric])

lemma num_leds_loop_ge: "n \<le> num_leds_loop cfgs n"
proof (induction cfgs arbitrary: n)
  case Nil
  then show ?case by simp
next
  case (Cons cfg cfgs)
  show ?case
  proof (cases "leds cfg")
    case Nil
    then show ?thesis using Cons.IH [of n] by simp
  next
    case (Cons x xs)
    then show ?thesis
      using Cons.IH [of n] Cons.IH [of "fold max xs x + 1"]
      by (auto simp: Let_def)
  qed
qed

lemma num_leds_loop_upper:
  "cfg \<in> set cfgs \<Longrightarrow> i \<in> set (leds cfg) \<Longrightarrow> i < num_leds_loop cfgs n"
proof (induction cfgs arbitrary: n)
  case Nil
  then show ?case by simp
next
  case (Cons c cfgs)
  show ?case
  proof (cases "leds c")
    case Nil
    with Cons.prems have "cfg \<in> set cfgs" by auto
    then show ?thesis using Cons.IH Cons.prems(2) Nil by simp
  next
    case lc: (Cons x xs)
    let ?m = "fold max xs x"
    have m: "?m = Max (set (leds c))" by (simp add: lc fold_max_Max)
    show ?thesis
    proof (cases "cfg = c")
      case True
      then have "i \<le> ?m" using Cons.prems(2) unfolding m by simp
      moreover have "?m + 1 \<le> num_leds_loop cfgs (?m + 1)" by (rule num_leds_loop_ge)
      moreover have "n \<le> num_leds_loop cfgs n" by (rule num_leds_loop_ge)
      ultimately show ?thesis by (auto simp: lc Let_def)
    next
      case False
      with Cons.prems have "cfg \<in> set cfgs" by auto
      then show ?thesis using Cons.IH Cons.prems(2) by (simp add: lc Let_def)
    qed
  qed
qed

lemma num_leds_loop_attained:
  "num_leds_loop cfgs n = n \<or> (\<exists>cfg \<in> set cfgs. \<exists>i \<in> set (leds cfg). num_leds_loop cfgs n = Suc i)"
proof (induction cfgs arbitrary: n)
  case Nil
  then show ?case by simp
next
  case (Cons c cfgs)
  show ?case
  proof (cases "leds c")
    case Nil
    then show ?thesis using Cons.IH [of n] by auto
  next
    case lc: (Cons x xs)
    let ?m = "fold max xs x"
    have "?m = Max (set (leds c))" by (simp add: lc fold_max_Max)
    then have mem: "?m \<in> set (leds c)"
      using Max_in [of "set (leds c)"] lc by auto
    show ?thesis
    proof (cases "?m + 1 > n")
      case True
      then have e: "num_leds_loop (c # cfgs) n = num_leds_loop cfgs (?m + 1)"
        by (simp add: lc Let_def)
      from Cons.IH [of "?m + 1"] show ?thesis
        unfolding e using mem by auto
    next
      case False
      then have e: "num_leds_loop (c # cfgs) n = num_leds_loop cfgs n"
        by (simp add: lc Let_def)
      from Cons.IH [of n] show ?thesis
        unfolding e by auto
    qed
  qed
qed

lemma NUM_LEDS_value: "NUM_LEDS = 171"
  unfolding NUM_LEDS_def num_leds_def letter_configs_def by code_simp

text \<open>
  Claim C9. The strip length is one plus the largest LED index over all segments
  (and \<open>0\<close> when no segment has an index), so every index of every segment lies in
  \<open>[0, StripLength)\<close>. The reference configuration has 9 segments of 19 indices each,
  covering \<open>0..170\<close>, and its derived strip length is \<open>171\<close>.
\<close>

theorem num_leds_derived:
  "((\<Union>cfg \<in> set cfgs. set (leds cfg)) \<noteq> {} \<longrightarrow>
      num_leds cfgs = 1 + Max (\<Union>cfg \<in> set cfgs. set (leds cfg)))
   \<and> ((\<Union>cfg \<in> set cfgs. set (leds cfg)) = {} \<longrightarrow> num_leds cfgs = 0)
   \<and> (\<forall>cfg \<in> set cfgs. \<forall>i \<in> set (leds cfg). 0 \<le> i \<and> i < num_leds cfgs)
   \<and> length letter_configs = 9
   \<and> (\<forall>cfg \<in> set letter_configs. length (leds cfg) = 19)
   \<and> (\<Union>cfg \<in> set letter_configs. set (leds cfg)) = {0..170}
   \<and> NUM_LEDS = 171"
proof -
  let ?A = "\<Union>cfg \<in> set cfgs. set (leds cfg)"
  have up: "\<forall>cfg \<in> set cfgs. \<forall>i \<in> set (leds cfg). 0 \<le> i \<and> i < num_leds cfgs"
    unfolding num_leds_def using num_leds_loop_upper by simp
  have mx: "num_leds cfgs = 1 + Max ?A" if ne: "?A \<noteq> {}"
  proof -
    have fin: "finite ?A" by simp
    from ne obtain j where j: "j \<in> ?A" by blast
    then have "j < num_leds cfgs" using up by auto
    then have "num_leds_loop cfgs 0 \<noteq> 0" unfolding num_leds_def by simp
    with num_leds_loop_attained [of cfgs 0]
    obtain i where i: "i \<in> ?A" "num_leds cfgs = Suc i"
      unfolding num_leds_def by auto
    have "k \<le> i" if "k \<in> ?A" for k
    proof -
      from that obtain cfg where "cfg \<in> set cfgs" "k \<in> set (leds cfg)" by blast
      then have "k < num_leds cfgs" using up by blast
      then show ?thesis using i(2) by simp
    qed
    then have "Max ?A = i" using i(1) fin by (intro Max_eqI)
    then show ?thesis using i(2) by simp
  qed
  have em: "num_leds cfgs = 0" if "?A = {}"
    using num_leds_loop_attained [of cfgs 0] that unfolding num_leds_def by auto
  have l9: "length letter_configs = 9" by (simp add: letter_configs_def)
  have l19: "\<forall>cfg \<in> set letter_configs. length (leds cfg) = 19"
    by (simp add: letter_configs_def)
  have cover: "(\<Union>cfg \<in> set letter_configs. set (leds cfg)) = {0..170}"
    by (auto simp add: letter_configs_def simp del: upt_rec_numeral)
  show ?thesis using up mx em l9 l19 cover NUM_LEDS_value by blast
qed

theorem num_leds_derived_witness:
  "(\<Union>cfg \<in> set letter_configs. set (leds cfg)) \<noteq> {}
   \<and> num_leds letter_configs = 1 + Max (\<Union>cfg \<in> set letter_configs. set (leds cfg))
   \<and> Max (\<Union>cfg \<in> set letter_configs. set (leds cfg)) = 170
   \<and> (170::nat) < num_leds letter_configs"
proof -
  have c: "(\<Union>cfg \<in> set letter_configs. set (leds cfg)) = {0..170}"
    using num_leds_derived [of letter_configs] by blast
  have mx: "Max {0..170::nat} = 170"
    by (rule Max_eqI) simp_all
  show ?thesis
    using num_leds_derived [of letter_configs] unfolding c mx by simp
qed

subsection \<open>Frame loops\<close>

lemma for_each_append:
  "for_each (xs @ ys) body st =
     (case for_each xs body st of Inl e \<Rightarrow> Inl e | Inr st' \<Rightarrow> for_each ys body st')"
  by (induction xs arbitrary: st) (auto split: sum.splits)

text \<open>The inner loop: every listed LED gets the colour, the others keep theirs.\<close>

lemma set_leds_result:
  assumes "\<forall>led \<in> set ls. led < length np"
  shows "\<exists>np'. for_each ls (\<lambda>led np'. set_led np' led (f led)) np = Inr np'
           \<and> length np' = length np
           \<and> (\<forall>i. np' ! i = (if i \<in> set ls \<and> i < length np then f i else np ! i))"
  using assms
proof (induction ls arbitrary: np)
  case Nil
  then show ?case by simp
next
  case (Cons l ls)
  have l: "l < length np" using Cons.prems by simp
  have "\<forall>led \<in> set ls. led < length (np[l := f l])" using Cons.prems by simp
  from Cons.IH [OF this] obtain np' where
    r: "for_each ls (\<lambda>led np'. set_led np' led (f led)) (np[l := f l]) = Inr np'"
    and len: "length np' = length np"
    and val: "\<forall>i. np' ! i = (if i \<in> set ls \<and> i < length np then f i else np[l := f l] ! i)"
    by auto
  have "for_each (l # ls) (\<lambda>led np'. set_led np' led (f led)) np = Inr np'"
    using l r by (simp add: set_led_def)
  moreover have "np' ! i = (if i \<in> set (l # ls) \<and> i < length np then f i else np ! i)" for i
    using val l by (cases "i = l") auto
  ultimately show ?case using len by blast
qed

lemma length_mk_letter_params: "length (mk_letter_params cfgs rnd) = length cfgs"
  by (simp add: mk_letter_params_def)

lemma nth_mk_letter_params:
  "idx < length cfgs \<Longrightarrow>
   mk_letter_params cfgs rnd ! idx =
     \<lparr>base_color = (case color_map (letter (cfgs ! idx)) of Some c \<Rightarrow> c | None \<Rightarrow> (255, 255, 255)),
      phase_offset = rnd idx\<rparr>"
  by (simp add: mk_letter_params_def nth_enumerate_eq)


lemma leds_in_range:
  "length np = num_leds cfgs \<Longrightarrow> \<forall>cfg \<in> set cfgs. \<forall>led \<in> set (leds cfg). led < length np"
  unfolding num_leds_def using num_leds_loop_upper by simp




lemma num_leds_reference: "num_leds letter_configs = 171"
  using NUM_LEDS_value by (simp add: NUM_LEDS_def)



subsection \<open>Wave position\<close>




subsection \<open>Which positions a frame writes\<close>






section \<open>Properties of the program in double arithmetic\<close>

subsection \<open>The sine near \<open>\<pi>/2\<close> and \<open>2\<pi>\<close>\<close>

lemma sum_two_more: "(\<Sum>m<Suc (Suc k). f m) = (\<Sum>m<k. f m) + f k + (f (Suc k) :: real)"
  by simp

lemma cos_coeff_odd: "odd m \<Longrightarrow> cos_coeff m = 0"
  by (simp add: cos_coeff_def)

lemma cos_coeff_even: "even m \<Longrightarrow> cos_coeff m = (- 1) ^ (m div 2) / fact m"
  by (simp add: cos_coeff_def)

lemma cos_sum24:
  "(\<Sum>m<24. cos_coeff m * x ^ m) =
     1 - x^2 / 2 + x^4 / 24 - x^6 / 720 + x^8 / 40320 - x^10 / 3628800 + x^12 / 479001600
       - x^14 / 87178291200 + x^16 / 20922789888000 - x^18 / 6402373705728000
       + x^20 / 2432902008176640000 - x^22 / 1124000727777607680000" for x :: real
proof -
  let ?f = "\<lambda>m. cos_coeff m * x ^ m"
  have s2: "(\<Sum>m<2. ?f m) = 1"
    using sum_two_more [of ?f 0] by (simp add: cos_coeff_odd cos_coeff_even numeral_2_eq_2)
  have s4: "(\<Sum>m<4. ?f m) = (\<Sum>m<2. ?f m) - x^2 / 2"
    using sum_two_more [of ?f 2] by (simp add: cos_coeff_odd cos_coeff_even fact_numeral)
  have s6: "(\<Sum>m<6. ?f m) = (\<Sum>m<4. ?f m) + x^4 / 24"
    using sum_two_more [of ?f 4] by (simp add: cos_coeff_odd cos_coeff_even fact_numeral)
  have s8: "(\<Sum>m<8. ?f m) = (\<Sum>m<6. ?f m) - x^6 / 720"
    using sum_two_more [of ?f 6] by (simp add: cos_coeff_odd cos_coeff_even fact_numeral)
  have s10: "(\<Sum>m<10. ?f m) = (\<Sum>m<8. ?f m) + x^8 / 40320"
    using sum_two_more [of ?f 8] by (simp add: cos_coeff_odd cos_coeff_even fact_numeral)
  have s12: "(\<Sum>m<12. ?f m) = (\<Sum>m<10. ?f m) - x^10 / 3628800"
    using sum_two_more [of ?f 10] by (simp add: cos_coeff_odd cos_coeff_even fact_numeral)
  have s14: "(\<Sum>m<14. ?f m) = (\<Sum>m<12. ?f m) + x^12 / 479001600"
    using sum_two_more [of ?f 12] by (simp add: cos_coeff_odd cos_coeff_even fact_numeral)
  have s16: "(\<Sum>m<16. ?f m) = (\<Sum>m<14. ?f m) - x^14 / 87178291200"
    using sum_two_more [of ?f 14] by (simp add: cos_coeff_odd cos_coeff_even fact_numeral)
  have s18: "(\<Sum>m<18. ?f m) = (\<Sum>m<16. ?f m) + x^16 / 20922789888000"
    using sum_two_more [of ?f 16] by (simp add: cos_coeff_odd cos_coeff_even fact_numeral)
  have s20: "(\<Sum>m<20. ?f m) = (\<Sum>m<18. ?f m) - x^18 / 6402373705728000"
    using sum_two_more [of ?f 18] by (simp add: cos_coeff_odd cos_coeff_even fact_numeral)
  have s22: "(\<Sum>m<22. ?f m) = (\<Sum>m<20. ?f m) + x^20 / 2432902008176640000"
    using sum_two_more [of ?f 20] by (simp add: cos_coeff_odd cos_coeff_even fact_numeral)
  have s24: "(\<Sum>m<24. ?f m) = (\<Sum>m<22. ?f m) - x^22 / 1124000727777607680000"
    using sum_two_more [of ?f 22] by (simp add: cos_coeff_odd cos_coeff_even fact_numeral)
  show ?thesis
    unfolding s24 s22 s20 s18 s16 s14 s12 s10 s8 s6 s4 s2 by simp
qed

text \<open>The double nearest to \<open>\<pi>/2\<close> lies just below \<open>\<pi>/2\<close>: its cosine is tiny and positive.\<close>

lemma cos_half_pi_d:
  "1 / 2 ^ 54 \<le> cos (pi_d / 2) \<and> cos (pi_d / 2) \<le> 1 / 2 ^ 27"
proof -
  define a :: real where "a = 884279719003555 / 562949953421312"
  have a: "pi_d / 2 = a" by (simp add: pi_d_def a_def)
  have apos: "0 < a" by (simp add: a_def)
  from Maclaurin_cos_expansion2 [OF apos, of 24] obtain t where
    e: "cos a = (\<Sum>m<24. cos_coeff m * a ^ m) + cos (t + 1 / 2 * real 24 * pi) / fact 24 * a ^ 24"
    by auto
  define r where "r = cos (t + 1 / 2 * real 24 * pi) / fact 24 * a ^ 24"
  define b :: real where "b = a ^ 24 / fact 24"
  have "\<bar>r\<bar> = \<bar>cos (t + 1 / 2 * real 24 * pi)\<bar> * b"
    using apos by (simp add: r_def b_def abs_mult)
  also have "\<dots> \<le> 1 * b"
    using apos by (intro mult_right_mono) (simp_all add: b_def)
  finally have rb: "\<bar>r\<bar> \<le> b" by simp
  define S where "S = (\<Sum>m<24. cos_coeff m * a ^ m)"
  have c: "cos a = S + r" using e by (simp add: S_def r_def)
  have lo: "1 / 2 ^ 54 + b \<le> S"
    unfolding S_def cos_sum24 b_def a_def by (simp add: fact_numeral power_divide)
  have hi: "S + b \<le> 1 / 2 ^ 27"
    unfolding S_def cos_sum24 b_def a_def by (simp add: fact_numeral power_divide)
  show ?thesis unfolding a c using lo hi rb by linarith
qed

lemma sin_half_pi_d:
  "1 - 1 / 2 ^ 54 \<le> sin (pi_d / 2) \<and> sin (pi_d / 2) \<le> 1"
proof -
  let ?a = "pi_d / 2"
  have c: "0 \<le> cos ?a" "cos ?a \<le> 1 / 2 ^ 27" using cos_half_pi_d by simp_all
  have "0 < ?a" "?a < 2" by (simp_all add: pi_d_def)
  then have spos: "0 < sin ?a" by (rule sin_gt_zero_02)
  have "(cos ?a)\<^sup>2 \<le> (1 / 2 ^ 27)\<^sup>2" using c by (intro power_mono) simp_all
  then have c2: "(cos ?a)\<^sup>2 \<le> 1 / 2 ^ 54" by (simp add: power_divide)
  have "(sin ?a)\<^sup>2 = 1 - (cos ?a)\<^sup>2" by (simp add: sin_squared_eq)
  then have s2: "1 - 1 / 2 ^ 54 \<le> (sin ?a)\<^sup>2" using c2 by simp
  have "(sin ?a)\<^sup>2 \<le> sin ?a * 1"
    unfolding power2_eq_square using spos by (intro mult_left_mono) simp_all
  then have "(sin ?a)\<^sup>2 \<le> sin ?a" by simp
  then show ?thesis using s2 by simp
qed

text \<open>The correctly rounded sine at \<open>0\<close> and at the double nearest to \<open>\<pi>/2\<close>.\<close>

lemma sin_cr_zero: "sin_cr 0 = 0"
  by (simp add: sin_cr_def fl_zero)

lemma fl_near_one:
  assumes "1 - 1 / 2 ^ 54 \<le> x" "x \<le> 1"
  shows "fl x = 1"
proof (cases "x = 1")
  case True
  then show ?thesis by (simp add: fl_one)
next
  case False
  then have lt: "x < 1" using assms(2) by simp
  have k1: "pow2 (- 1) \<le> \<bar>x\<bar>" using assms(1) by (simp add: pow2_def)
  have k2: "\<bar>x\<bar> < pow2 (- 1 + 1)" using assms(1) lt by (simp add: pow2_def)
  have p: "pow2 (- 53) = 1 / 2 ^ 53" by (simp add: pow2_def)
  define y where "y = x * 2 ^ 53"
  have y1: "2 ^ 53 - 1 / 2 \<le> y" using assms(1) by (simp add: y_def field_simps)
  have y2: "y < 2 ^ 53" using lt by (simp add: y_def)
  have f: "\<lfloor>y\<rfloor> = 2 ^ 53 - 1"
    using y1 y2 by (simp add: floor_eq_iff)
  have "rne y = 2 ^ 53"
    using y1 f by (simp add: rne_def Let_def)
  then have r: "rne (x / pow2 (- 1 - 52)) = 2 ^ 53" by (simp add: p y_def)
  show ?thesis
    by (rule fl_eval [OF k1 k2 _ r]) (simp_all add: p)
qed

lemma sin_cr_half_pi_d: "sin_cr (pi_d / 2) = 1"
  unfolding sin_cr_def using sin_half_pi_d by (intro fl_near_one) simp_all



subsection \<open>HSV conversion in doubles\<close>


text \<open>
  Claim C1, as the code has it. The hue is not wrapped. For a hue outside \<open>[0, 360)\<close>
  and saturation and value in \<open>[0, 1]\<close> every sector test fails and the last branch
  \<open>(c, 0, x)\<close> is taken, with \<open>x\<close> computed from the unwrapped hue: the result is
  \<^verbatim>\<open>(int((c+m)*255), int((0+m)*255), int((x+m)*255))\<close>. It need not be the result for
  the hue taken modulo \<open>360\<close>, not even when that hue lies in the last sector: hue \<open>700\<close>
  gives blue \<open>85\<close>, hue \<open>340\<close> gives blue \<open>84\<close>.
\<close>

theorem hsv_to_rgb_no_wrap:
  assumes "h < 0 \<or> 360 \<le> h" and "0 \<le> s" "s \<le> 1" "0 \<le> v" "v \<le> 1"
  shows "hsv_sector h (fl (v * s)) (hsv_x_d h (fl (v * s))) = (fl (v * s), 0, hsv_x_d h (fl (v * s)))
       \<and> hsv_x_d h (fl (v * s)) =
           fl (fl (v * s) * fl (1 - \<bar>fl (py_fmod_d (fl (h / 60)) 2 - 1)\<bar>))
       \<and> hsv_to_rgb_d h s v =
           (py_int (fl (fl (fl (v * s) + fl (v - fl (v * s))) * 255)),
            py_int (fl (fl (0 + fl (v - fl (v * s))) * 255)),
            py_int (fl (fl (hsv_x_d h (fl (v * s)) + fl (v - fl (v * s))) * 255)))"
proof -
  have sec: "hsv_sector h c x = (c, 0, x)" for c x
    using assms(1) by (auto simp: hsv_sector_def)
  have x: "hsv_x_d h (fl (v * s)) =
           fl (fl (v * s) * fl (1 - \<bar>fl (py_fmod_d (fl (h / 60)) 2 - 1)\<bar>))"
    by (simp add: hsv_x_d_def)
  have r: "hsv_to_rgb_d h s v =
           (py_int (fl (fl (fl (v * s) + fl (v - fl (v * s))) * 255)),
            py_int (fl (fl (0 + fl (v - fl (v * s))) * 255)),
            py_int (fl (fl (hsv_x_d h (fl (v * s)) + fl (v - fl (v * s))) * 255)))"
    unfolding hsv_to_rgb_d_def Let_def sec by simp
  show ?thesis using sec x r by blast
qed

theorem hsv_to_rgb_no_wrap_witness:
  "((700::real) < 0 \<or> (360::real) \<le> 700) \<and> (0::real) \<le> 1 \<and> (1::real) \<le> 1
   \<and> hsv_to_rgb_d 700 1 1 = (255, 0, 85)
   \<and> py_fmod_d 700 360 = 340
   \<and> hsv_to_rgb_d (py_fmod_d 700 360) 1 1 = (255, 0, 84)"
proof -
  have f1: "fl (1) = 1"
    by (rule fl_eval [where k = "0" and n = "4503599627370496"])
       (simp_all add: pow2_def rne_def Let_def)
  have f2: "fl (35 / 3) = 6567749456581973 / 562949953421312"
    by (rule fl_eval [where k = "3" and n = "6567749456581973"])
       (simp_all add: pow2_def rne_def Let_def)
  have f3: "fl (375299968947541 / 562949953421312) = 375299968947541 / 562949953421312"
    by (rule fl_eval [where k = "- 1" and n = "6004799503160656"])
       (simp_all add: pow2_def rne_def Let_def)
  have f4: "fl (187649984473771 / 562949953421312) = 187649984473771 / 562949953421312"
    by (rule fl_eval [where k = "- 2" and n = "6004799503160672"])
       (simp_all add: pow2_def rne_def Let_def)
  have f5: "fl (255) = 255"
    by (rule fl_eval [where k = "7" and n = "8972014882652160"])
       (simp_all add: pow2_def rne_def Let_def)
  have f6: "fl (47850746040811605 / 562949953421312) = 5981343255101451 / 70368744177664"
    by (rule fl_eval [where k = "6" and n = "5981343255101451"])
       (simp_all add: pow2_def rne_def Let_def)
  have f7: "fl (17 / 3) = 6380099472108203 / 1125899906842624"
    by (rule fl_eval [where k = "2" and n = "6380099472108203"])
       (simp_all add: pow2_def rne_def Let_def)
  have f8: "fl (750599937895083 / 1125899906842624) = 750599937895083 / 1125899906842624"
    by (rule fl_eval [where k = "- 1" and n = "6004799503160664"])
       (simp_all add: pow2_def rne_def Let_def)
  have f9: "fl (375299968947541 / 1125899906842624) = 375299968947541 / 1125899906842624"
    by (rule fl_eval [where k = "- 2" and n = "6004799503160656"])
       (simp_all add: pow2_def rne_def Let_def)
  have f10: "fl (95701492081622955 / 1125899906842624) = 5981343255101435 / 70368744177664"
    by (rule fl_eval [where k = "6" and n = "5981343255101435"])
       (simp_all add: pow2_def rne_def Let_def)
  have m: "py_fmod_d 700 360 = 340"
    by (simp add: py_fmod_d_def c_fmod_def py_int_def)
  have x: "hsv_x_d 700 1 = 187649984473771 / 562949953421312"
    by (simp add: hsv_x_d_def py_fmod_d_def c_fmod_def py_int_def Let_def f1 f2 f3 f4 f5 f6 f7 f8 f9 f10)
  have a: "hsv_to_rgb_d 700 1 1 = (255, 0, 85)"
    using hsv_to_rgb_no_wrap [of 700 1 1]
    by (simp add: x py_int_def fl_zero f1 f2 f3 f4 f5 f6 f7 f8 f9 f10)
  have b: "hsv_to_rgb_d 340 1 1 = (255, 0, 84)"
    by (simp add: hsv_to_rgb_d_def hsv_x_d_def hsv_sector_def py_fmod_d_def c_fmod_def py_int_def Let_def fl_zero f1 f2 f3 f4 f5 f6 f7 f8 f9 f10)
  show ?thesis using a b m by simp
qed

text \<open>
  The claim as stated fails at hue \<open>420\<close> with full saturation and value: the code
  returns magenta \<open>(255, 0, 255)\<close>, the wrapped hue \<open>60\<close> gives yellow \<open>(255, 255, 0)\<close>.
\<close>

theorem hsv_to_rgb_wrap_counterexample:
  "hsv_to_rgb_d 420 1 1 \<noteq> hsv_to_rgb_d (py_fmod_d 420 360) 1 1"
proof -
  have f1: "fl (1) = 1"
    by (rule fl_eval [where k = "0" and n = "4503599627370496"])
       (simp_all add: pow2_def rne_def Let_def)
  have f2: "fl (7) = 7"
    by (rule fl_eval [where k = "2" and n = "7881299347898368"])
       (simp_all add: pow2_def rne_def Let_def)
  have f3: "fl (255) = 255"
    by (rule fl_eval [where k = "7" and n = "8972014882652160"])
       (simp_all add: pow2_def rne_def Let_def)
  have m: "py_fmod_d 420 360 = 60"
    by (simp add: py_fmod_d_def c_fmod_def py_int_def)
  have a: "hsv_to_rgb_d 420 1 1 = (255, 0, 255)"
    by (simp add: hsv_to_rgb_d_def hsv_x_d_def hsv_sector_def py_fmod_d_def c_fmod_def py_int_def Let_def fl_zero f1 f2 f3)
  have b: "hsv_to_rgb_d 60 1 1 = (255, 255, 0)"
    by (simp add: hsv_to_rgb_d_def hsv_x_d_def hsv_sector_def py_fmod_d_def c_fmod_def py_int_def Let_def fl_zero f1 f2 f3)
  show ?thesis unfolding m a b by simp
qed




subsection \<open>Fade-letters brightness in doubles\<close>

lemma brightness_d_of_sine:
  "brightness_d fs t phase =
     fl (fl (fs (fl (fl (fl (2 * pi_d) * fl (t / 5)) + phase)) + 1) / 2)"
  by (simp add: brightness_d_def period_def)






subsection \<open>Fade-letters frames in doubles\<close>

text \<open>
  A loop over the enumerated letters whose body stores one colour per letter: a
  position listed by no letter keeps its colour, a listed position has the colour of the
  last letter that lists it.
\<close>

lemma letters_loop_result:
  assumes "\<forall>cfg \<in> set cfgs. \<forall>led \<in> set (leds cfg). led < length np"
    and "\<forall>idx<length cfgs. \<forall>b. body (idx, cfgs ! idx) b =
           for_each (leds (cfgs ! idx)) (\<lambda>led np'. set_led np' led (col idx)) b"
  shows "\<exists>np'. for_each (enumerate 0 cfgs) body np = Inr np'
           \<and> length np' = length np
           \<and> (\<forall>i. i \<notin> (\<Union>cfg \<in> set cfgs. set (leds cfg)) \<longrightarrow> np' ! i = np ! i)
           \<and> (\<forall>i idx. idx < length cfgs \<and> i \<in> set (leds (cfgs ! idx))
                  \<and> (\<forall>j. idx < j \<and> j < length cfgs \<longrightarrow> i \<notin> set (leds (cfgs ! j)))
                \<longrightarrow> np' ! i = col idx)"
  using assms
proof (induction cfgs rule: rev_induct)
  case Nil
  then show ?case by simp
next
  case (snoc c cfgs)
  have pre: "\<forall>cfg \<in> set cfgs. \<forall>led \<in> set (leds cfg). led < length np"
    and cin: "\<forall>led \<in> set (leds c). led < length np"
    using snoc.prems(1) by auto
  have bod: "\<forall>idx<length cfgs. \<forall>b. body (idx, cfgs ! idx) b =
           for_each (leds (cfgs ! idx)) (\<lambda>led np'. set_led np' led (col idx)) b"
  proof (intro allI impI)
    fix idx b assume l: "idx < length cfgs"
    then have "idx < length (cfgs @ [c])" by simp
    with snoc.prems(2) have "body (idx, (cfgs @ [c]) ! idx) b =
           for_each (leds ((cfgs @ [c]) ! idx)) (\<lambda>led np'. set_led np' led (col idx)) b"
      by blast
    then show "body (idx, cfgs ! idx) b =
           for_each (leds (cfgs ! idx)) (\<lambda>led np'. set_led np' led (col idx)) b"
      using l by (simp add: nth_append)
  qed
  have last: "body (length cfgs, c) b =
           for_each (leds c) (\<lambda>led np'. set_led np' led (col (length cfgs))) b" for b
    using snoc.prems(2) [rule_format, of "length cfgs" b] by simp
  from snoc.IH [OF pre bod] obtain np1 where
    r1: "for_each (enumerate 0 cfgs) body np = Inr np1"
    and len1: "length np1 = length np"
    and keep1: "\<forall>i. i \<notin> (\<Union>cfg \<in> set cfgs. set (leds cfg)) \<longrightarrow> np1 ! i = np ! i"
    and col1: "\<forall>i idx. idx < length cfgs \<and> i \<in> set (leds (cfgs ! idx))
                  \<and> (\<forall>j. idx < j \<and> j < length cfgs \<longrightarrow> i \<notin> set (leds (cfgs ! j)))
                \<longrightarrow> np1 ! i = col idx"
    by blast
  let ?c = "col (length cfgs)"
  have "\<forall>led \<in> set (leds c). led < length np1" using cin len1 by simp
  from set_leds_result [OF this, of "\<lambda>_. ?c"] obtain np2 where
    r2: "for_each (leds c) (\<lambda>led np'. set_led np' led ?c) np1 = Inr np2"
    and len2: "length np2 = length np1"
    and val2: "\<forall>i. np2 ! i = (if i \<in> set (leds c) \<and> i < length np1 then ?c else np1 ! i)"
    by blast
  have val2': "np2 ! i = (if i \<in> set (leds c) then ?c else np1 ! i)" for i
    using val2 cin len1 by auto
  have en: "enumerate 0 (cfgs @ [c]) = enumerate 0 cfgs @ [(length cfgs, c)]"
    by (simp add: enumerate_append_eq)
  have run: "for_each (enumerate 0 (cfgs @ [c])) body np = Inr np2"
    unfolding en for_each_append r1 using r2 by (simp add: last)
  have keep: "np2 ! i = np ! i" if "i \<notin> (\<Union>cfg \<in> set (cfgs @ [c]). set (leds cfg))" for i
    using that keep1 val2' by auto
  have col: "np2 ! i = col idx"
    if a: "idx < length (cfgs @ [c])" and b: "i \<in> set (leds ((cfgs @ [c]) ! idx))"
      and d: "\<forall>j. idx < j \<and> j < length (cfgs @ [c]) \<longrightarrow> i \<notin> set (leds ((cfgs @ [c]) ! j))"
    for i idx
  proof (cases "idx = length cfgs")
    case True
    then show ?thesis using b val2' by simp
  next
    case False
    then have lt: "idx < length cfgs" using a by simp
    have "i \<notin> set (leds ((cfgs @ [c]) ! length cfgs))"
      using d [rule_format, of "length cfgs"] lt by simp
    then have notc: "i \<notin> set (leds c)" by simp
    have b': "i \<in> set (leds (cfgs ! idx))" using b lt by (simp add: nth_append)
    have d': "\<forall>j. idx < j \<and> j < length cfgs \<longrightarrow> i \<notin> set (leds (cfgs ! j))"
    proof (intro allI impI)
      fix j assume j: "idx < j \<and> j < length cfgs"
      then have "i \<notin> set (leds ((cfgs @ [c]) ! j))"
        using d [rule_format, of j] by simp
      then show "i \<notin> set (leds (cfgs ! j))" using j by (simp add: nth_append)
    qed
    have "np1 ! i = col idx" using col1 lt b' d' by blast
    then show ?thesis using val2' notc by simp
  qed
  show ?case using run len1 len2 keep col by auto
qed

lemma fade_frame_d_result:
  assumes "length np = num_leds cfgs"
  shows "\<exists>np'. fade_frame_d fs cfgs (mk_letter_params cfgs rnd) start_time current_time np = Inr np'
           \<and> length np' = length np
           \<and> (\<forall>i idx. idx < length cfgs \<and> i \<in> set (leds (cfgs ! idx))
                  \<and> (\<forall>j. idx < j \<and> j < length cfgs \<longrightarrow> i \<notin> set (leds (cfgs ! j)))
                \<longrightarrow> np' ! i = letter_color_d fs (mk_letter_params cfgs rnd ! idx)
                                (elapsed_s_d current_time start_time))"
proof -
  let ?ps = "mk_letter_params cfgs rnd"
  let ?t = "elapsed_s_d current_time start_time"
  have b: "\<forall>idx<length cfgs. \<forall>b. fade_letter_d fs ?ps ?t (idx, cfgs ! idx) b =
           for_each (leds (cfgs ! idx))
             (\<lambda>led np'. set_led np' led (letter_color_d fs (?ps ! idx) ?t)) b"
    by (simp add: fade_letter_d_def length_mk_letter_params)
  from letters_loop_result [OF leds_in_range [OF assms], of "fade_letter_d fs ?ps ?t"
      "\<lambda>idx. letter_color_d fs (?ps ! idx) ?t", OF b]
  show ?thesis unfolding fade_frame_d_def Let_def by blast
qed

lemma scaled_color_d_one:
  assumes "case base of (r, g, bl) \<Rightarrow> \<bar>r\<bar> < 2 ^ 53 \<and> \<bar>g\<bar> < 2 ^ 53 \<and> \<bar>bl\<bar> < 2 ^ 53"
  shows "scaled_color_d base 1 = base"
  using assms by (cases base) (simp add: scaled_color_d_def fl_of_int py_int_of_int)

text \<open>
  Claim C7. After a fade-letters frame every LED of a segment holds one and the same
  colour: the segment's base colour (from the letter table, white for an unmapped
  letter) scaled per channel by the brightness and truncated to an integer, all in
  double arithmetic and for the elapsed time \<open>(current_time - start_time) / 1000\<close>. This
  is the state of the buffer at the end of the frame for every LED that no later segment
  lists as well (the segments' indices being unique). With a sine that is \<open>0\<close> at \<open>0\<close>,
  at elapsed time \<open>0\<close> and phase \<open>0\<close> the brightness is \<open>0.5\<close> and base colour
  \<open>(255, 0, 0)\<close> gives \<open>(127, 0, 0)\<close>. Whenever the computed sine argument
  \<open>2\<pi>t/5 + phase\<close> is the double \<open>\<pi>/2\<close>, where the sine is \<open>1.0\<close>, the brightness is \<open>1.0\<close>
  and a colour with channels in \<open>[0, 255]\<close> is output unchanged.
\<close>

theorem fade_segment_color:
  assumes "length np = num_leds cfgs"
    and "idx < length cfgs"
    and "led \<in> set (leds (cfgs ! idx))"
    and "\<forall>j. idx < j \<and> j < length cfgs \<longrightarrow> led \<notin> set (leds (cfgs ! j))"
  shows "(\<exists>np'. fade_frame_d fs cfgs (mk_letter_params cfgs rnd) start_time current_time np = Inr np'
            \<and> (case (case color_map (letter (cfgs ! idx)) of Some c \<Rightarrow> c | None \<Rightarrow> (255, 255, 255))
                of (r, g, bl) \<Rightarrow>
                  let t = fl (fl (real_of_int (current_time - start_time)) / 1000);
                      b = fl (fl (fs (fl (fl (fl (2 * pi_d) * fl (t / 5)) + rnd idx)) + 1) / 2)
                  in np' ! led =
                       (py_int (fl (fl (real_of_int r) * b)), py_int (fl (fl (real_of_int g) * b)),
                        py_int (fl (fl (real_of_int bl) * b)))))
       \<and> color_map ''A'' = Some (255, 0, 0)
       \<and> (fs 0 = 0 \<longrightarrow>
            brightness_d fs 0 0 = 1 / 2 \<and> scaled_color_d (255, 0, 0) (brightness_d fs 0 0) = (127, 0, 0))
       \<and> (fl (fl (fl (2 * pi_d) * fl (t / 5)) + phase) = pi_d / 2 \<and> fs (pi_d / 2) = 1
            \<and> 0 \<le> r \<and> r \<le> 255 \<and> 0 \<le> g \<and> g \<le> 255 \<and> 0 \<le> bl \<and> bl \<le> 255 \<longrightarrow>
            brightness_d fs t phase = 1
            \<and> scaled_color_d (r, g, bl) (brightness_d fs t phase) = (r, g, bl))"
proof -
  have f1: "fl (884279719003555 / 140737488355328) = 884279719003555 / 140737488355328"
    by (rule fl_eval [where k = "2" and n = "7074237752028440"])
       (simp_all add: pow2_def rne_def Let_def)
  have f2: "fl (1250) = 1250"
    by (rule fl_eval [where k = "10" and n = "5497558138880000"])
       (simp_all add: pow2_def rne_def Let_def)
  have f3: "fl (5 / 4) = 5 / 4"
    by (rule fl_eval [where k = "0" and n = "5629499534213120"])
       (simp_all add: pow2_def rne_def Let_def)
  have f4: "fl (1 / 4) = 1 / 4"
    by (rule fl_eval [where k = "- 2" and n = "4503599627370496"])
       (simp_all add: pow2_def rne_def Let_def)
  have f5: "fl (884279719003555 / 562949953421312) = 884279719003555 / 562949953421312"
    by (rule fl_eval [where k = "0" and n = "7074237752028440"])
       (simp_all add: pow2_def rne_def Let_def)
  have f6: "fl (5000) = 5000"
    by (rule fl_eval [where k = "12" and n = "5497558138880000"])
       (simp_all add: pow2_def rne_def Let_def)
  have f7: "fl (5) = 5"
    by (rule fl_eval [where k = "2" and n = "5629499534213120"])
       (simp_all add: pow2_def rne_def Let_def)
  have f8: "fl (1) = 1"
    by (rule fl_eval [where k = "0" and n = "4503599627370496"])
       (simp_all add: pow2_def rne_def Let_def)
  have f9: "fl (1 / 2) = 1 / 2"
    by (rule fl_eval [where k = "- 1" and n = "4503599627370496"])
       (simp_all add: pow2_def rne_def Let_def)
  have f10: "fl (2) = 2"
    by (rule fl_eval [where k = "1" and n = "4503599627370496"])
       (simp_all add: pow2_def rne_def Let_def)
  have f11: "fl (255) = 255"
    by (rule fl_eval [where k = "7" and n = "8972014882652160"])
       (simp_all add: pow2_def rne_def Let_def)
  have f12: "fl (255 / 2) = 255 / 2"
    by (rule fl_eval [where k = "6" and n = "8972014882652160"])
       (simp_all add: pow2_def rne_def Let_def)
  from fade_frame_d_result [OF assms(1), of fs rnd start_time current_time] obtain np' where
    r: "fade_frame_d fs cfgs (mk_letter_params cfgs rnd) start_time current_time np = Inr np'"
    and col: "\<forall>i idx. idx < length cfgs \<and> i \<in> set (leds (cfgs ! idx))
                  \<and> (\<forall>j. idx < j \<and> j < length cfgs \<longrightarrow> i \<notin> set (leds (cfgs ! j)))
                \<longrightarrow> np' ! i = letter_color_d fs (mk_letter_params cfgs rnd ! idx)
                                (elapsed_s_d current_time start_time)"
    by blast
  have v: "np' ! led = letter_color_d fs (mk_letter_params cfgs rnd ! idx)
                         (elapsed_s_d current_time start_time)"
    using col assms(2-4) by blast
  obtain cr cg cb where
    c: "(case color_map (letter (cfgs ! idx)) of Some c \<Rightarrow> c | None \<Rightarrow> (255, 255, 255)) = (cr, cg, cb)"
    by (cases "case color_map (letter (cfgs ! idx)) of Some c \<Rightarrow> c | None \<Rightarrow> (255, 255, 255)") auto
  have one: "\<exists>np'. fade_frame_d fs cfgs (mk_letter_params cfgs rnd) start_time current_time np = Inr np'
            \<and> (case (case color_map (letter (cfgs ! idx)) of Some c \<Rightarrow> c | None \<Rightarrow> (255, 255, 255))
                of (r, g, bl) \<Rightarrow>
                  let t = fl (fl (real_of_int (current_time - start_time)) / 1000);
                      b = fl (fl (fs (fl (fl (fl (2 * pi_d) * fl (t / 5)) + rnd idx)) + 1) / 2)
                  in np' ! led =
                       (py_int (fl (fl (real_of_int r) * b)), py_int (fl (fl (real_of_int g) * b)),
                        py_int (fl (fl (real_of_int bl) * b))))"
    using r v assms(2) unfolding c
    by (intro exI [of _ np'])
       (simp add: nth_mk_letter_params letter_color_d_def scaled_color_d_def
          brightness_d_of_sine elapsed_s_d_def c Let_def)
  have two: "color_map ''A'' = Some (255, 0, 0)" by (simp add: color_map_def)
  have three: "brightness_d fs 0 0 = 1 / 2
      \<and> scaled_color_d (255, 0, 0) (brightness_d fs 0 0) = (127, 0, 0)" if "fs 0 = 0"
  proof -
    have b: "brightness_d fs 0 0 = 1 / 2"
      using that by (simp add: brightness_d_of_sine fl_zero f1 f2 f3 f4 f5 f6 f7 f8 f9 f10 f11 f12)
    show ?thesis unfolding b
      by (simp add: scaled_color_d_def py_int_def fl_zero f1 f2 f3 f4 f5 f6 f7 f8 f9 f10 f11 f12)
  qed
  have four: "brightness_d fs t phase = 1
      \<and> scaled_color_d (r, g, bl) (brightness_d fs t phase) = (r, g, bl)"
    if a: "fl (fl (fl (2 * pi_d) * fl (t / 5)) + phase) = pi_d / 2" and s: "fs (pi_d / 2) = 1"
      and ch: "0 \<le> r" "r \<le> 255" "0 \<le> g" "g \<le> 255" "0 \<le> bl" "bl \<le> 255"
  proof -
    have b: "brightness_d fs t phase = 1"
      unfolding brightness_d_of_sine a s by (simp add: f1 f2 f3 f4 f5 f6 f7 f8 f9 f10 f11 f12)
    have "case (r, g, bl) of (r, g, bl) \<Rightarrow> \<bar>r\<bar> < 2 ^ 53 \<and> \<bar>g\<bar> < 2 ^ 53 \<and> \<bar>bl\<bar> < 2 ^ 53"
      using ch by simp
    then show ?thesis unfolding b using scaled_color_d_one by blast
  qed
  show ?thesis using one two three four by blast
qed

theorem fade_segment_color_witness:
  "length (replicate 171 ((0, 0, 0) :: rgb)) = num_leds letter_configs
   \<and> 18 \<in> set (leds (letter_configs ! 0)) \<and> letter (letter_configs ! 0) = ''A''
   \<and> 80 \<in> set (leds (letter_configs ! 4)) \<and> letter (letter_configs ! 4) = ''E''
   \<and> color_map ''E'' = Some (255, 255, 0)
   \<and> sin_cr 0 = 0 \<and> sin_cr (pi_d / 2) = 1
   \<and> (\<exists>np'. fade_frame_d sin_cr letter_configs (mk_letter_params letter_configs (\<lambda>_. 0))
                7000 7000 (replicate 171 (0, 0, 0)) = Inr np'
            \<and> np' ! 18 = (127, 0, 0))
   \<and> (\<exists>np'. fade_frame_d sin_cr letter_configs (mk_letter_params letter_configs (\<lambda>_. 0))
                7000 7000 (replicate 171 (0, 0, 0)) = Inr np'
            \<and> np' ! 80 = (127, 127, 0))
   \<and> fl (fl (fl (2 * pi_d) * fl ((5 / 4) / 5)) + 0) = pi_d / 2
   \<and> brightness_d sin_cr (5 / 4) 0 = 1
   \<and> (\<exists>np'. fade_frame_d sin_cr letter_configs (mk_letter_params letter_configs (\<lambda>_. 0))
                7000 8250 (replicate 171 (0, 0, 0)) = Inr np'
            \<and> np' ! 80 = (255, 255, 0))"
proof -
  have f1: "fl (884279719003555 / 140737488355328) = 884279719003555 / 140737488355328"
    by (rule fl_eval [where k = "2" and n = "7074237752028440"])
       (simp_all add: pow2_def rne_def Let_def)
  have f2: "fl (1250) = 1250"
    by (rule fl_eval [where k = "10" and n = "5497558138880000"])
       (simp_all add: pow2_def rne_def Let_def)
  have f3: "fl (5 / 4) = 5 / 4"
    by (rule fl_eval [where k = "0" and n = "5629499534213120"])
       (simp_all add: pow2_def rne_def Let_def)
  have f4: "fl (1 / 4) = 1 / 4"
    by (rule fl_eval [where k = "- 2" and n = "4503599627370496"])
       (simp_all add: pow2_def rne_def Let_def)
  have f5: "fl (884279719003555 / 562949953421312) = 884279719003555 / 562949953421312"
    by (rule fl_eval [where k = "0" and n = "7074237752028440"])
       (simp_all add: pow2_def rne_def Let_def)
  have f6: "fl (5000) = 5000"
    by (rule fl_eval [where k = "12" and n = "5497558138880000"])
       (simp_all add: pow2_def rne_def Let_def)
  have f7: "fl (5) = 5"
    by (rule fl_eval [where k = "2" and n = "5629499534213120"])
       (simp_all add: pow2_def rne_def Let_def)
  have f8: "fl (1) = 1"
    by (rule fl_eval [where k = "0" and n = "4503599627370496"])
       (simp_all add: pow2_def rne_def Let_def)
  have f9: "fl (1 / 2) = 1 / 2"
    by (rule fl_eval [where k = "- 1" and n = "4503599627370496"])
       (simp_all add: pow2_def rne_def Let_def)
  have f10: "fl (2) = 2"
    by (rule fl_eval [where k = "1" and n = "4503599627370496"])
       (simp_all add: pow2_def rne_def Let_def)
  have f11: "fl (255) = 255"
    by (rule fl_eval [where k = "7" and n = "8972014882652160"])
       (simp_all add: pow2_def rne_def Let_def)
  have f12: "fl (255 / 2) = 255 / 2"
    by (rule fl_eval [where k = "6" and n = "8972014882652160"])
       (simp_all add: pow2_def rne_def Let_def)
  let ?np = "replicate 171 ((0, 0, 0) :: rgb)"
  have h1: "length ?np = num_leds letter_configs" by (simp add: num_leds_reference)
  have a2: "(0::nat) < length letter_configs" and e2: "(4::nat) < length letter_configs"
    by (simp_all add: letter_configs_def)
  have a3: "18 \<in> set (leds (letter_configs ! 0))"
    by (simp add: letter_configs_def del: upt_rec_numeral)
  have e3: "80 \<in> set (leds (letter_configs ! 4))"
    by (simp add: letter_configs_def del: upt_rec_numeral)
  have a4: "\<forall>j. 0 < j \<and> j < length letter_configs \<longrightarrow> 18 \<notin> set (leds (letter_configs ! j))"
    by (simp add: letter_configs_def nth_Cons' del: upt_rec_numeral)
  have e4: "\<forall>j. 4 < j \<and> j < length letter_configs \<longrightarrow> 80 \<notin> set (leds (letter_configs ! j))"
    by (simp add: letter_configs_def nth_Cons' del: upt_rec_numeral)
  have la: "letter (letter_configs ! 0) = ''A''" and le: "letter (letter_configs ! 4) = ''E''"
    by (simp_all add: letter_configs_def)
  have ca: "(case color_map ''A'' of Some c \<Rightarrow> c | None \<Rightarrow> (255, 255, 255)) = (255, 0, 0)"
    and ce: "(case color_map ''E'' of Some c \<Rightarrow> c | None \<Rightarrow> (255, 255, 255)) = (255, 255, 0)"
    and ce': "color_map ''E'' = Some (255, 255, 0)"
    by (simp_all add: color_map_def)
  have arg: "fl (fl (fl (2 * pi_d) * fl ((5 / 4) / 5)) + 0) = pi_d / 2"
    by (simp add: pi_d_def f1 f2 f3 f4 f5 f6 f7 f8 f9 f10 f11 f12)
  note s0 = sin_cr_zero and s1 = sin_cr_half_pi_d
  have w1: "\<exists>np'. fade_frame_d sin_cr letter_configs (mk_letter_params letter_configs (\<lambda>_. 0))
                7000 7000 ?np = Inr np' \<and> np' ! 18 = (127, 0, 0)"
    using fade_segment_color [OF h1 a2 a3 a4, of sin_cr "\<lambda>_. 0" 7000 7000]
    unfolding la ca
    by (auto simp: Let_def fl_zero s0 py_int_def f1 f2 f3 f4 f5 f6 f7 f8 f9 f10 f11 f12)
  have w2: "\<exists>np'. fade_frame_d sin_cr letter_configs (mk_letter_params letter_configs (\<lambda>_. 0))
                7000 7000 ?np = Inr np' \<and> np' ! 80 = (127, 127, 0)"
    using fade_segment_color [OF h1 e2 e3 e4, of sin_cr "\<lambda>_. 0" 7000 7000]
    unfolding le ce
    by (auto simp: Let_def fl_zero s0 py_int_def f1 f2 f3 f4 f5 f6 f7 f8 f9 f10 f11 f12)
  have s1': "sin_cr (884279719003555 / 562949953421312) = 1"
    using s1 by (simp add: pi_d_def)
  have w3: "\<exists>np'. fade_frame_d sin_cr letter_configs (mk_letter_params letter_configs (\<lambda>_. 0))
                7000 8250 ?np = Inr np' \<and> np' ! 80 = (255, 255, 0)"
    using fade_segment_color [OF h1 e2 e3 e4, of sin_cr "\<lambda>_. 0" 7000 8250]
    unfolding le ce
    by (auto simp: Let_def pi_d_def s1' fl_zero py_int_def f1 f2 f3 f4 f5 f6 f7 f8 f9 f10 f11 f12)
  have b: "brightness_d sin_cr (5 / 4) 0 = 1"
    using fade_segment_color [OF h1 e2 e3 e4, of sin_cr _ _ _ "5 / 4" 0 255 255 0] arg s1
    by simp
  show ?thesis using h1 a3 e3 la le ce' s0 s1 w1 w2 arg b w3 by simp
qed

subsection \<open>Wave-effect frames in doubles\<close>

lemma wave_frame_d_result:
  assumes "length np = n"
  shows "\<exists>np'. wave_frame_d n current_time np = Inr np'
           \<and> length np' = n
           \<and> (\<forall>i<n. np' ! i =
                 wave_led_d (wave_pos_d n current_time) (wave_color (wave_pos_d n current_time)) i)"
proof -
  let ?f = "wave_led_d (wave_pos_d n current_time) (wave_color (wave_pos_d n current_time))"
  have "\<forall>led \<in> set [0..<n]. led < length np" using assms by simp
  from set_leds_result [OF this, of ?f] show ?thesis
    unfolding wave_frame_d_def Let_def using assms by auto
qed

lemma wave_pos_d_nonneg: "0 \<le> wave_pos_d n current_time"
proof -
  have "0 \<le> real_of_int (current_time mod wave_period_ms) / real_of_int wave_period_ms"
    by (simp add: wave_period_ms_def)
  then have "0 \<le> wave_phase_d current_time" unfolding wave_phase_d_def by (rule fl_nonneg)
  moreover have "0 \<le> fl (real n)" by (rule fl_nonneg) simp
  ultimately have "0 \<le> wave_phase_d current_time * fl (real n)"
    by (rule mult_nonneg_nonneg)
  then show ?thesis unfolding wave_pos_d_def by (rule fl_nonneg)
qed

lemma wave_color_d_floor:
  "wave_color (wave_pos_d n current_time) = wave_colors ! (nat \<lfloor>wave_pos_d n current_time\<rfloor> mod 3)"
proof -
  have nn: "0 \<le> \<lfloor>wave_pos_d n current_time\<rfloor>" using wave_pos_d_nonneg [of n current_time] by simp
  have "py_int (wave_pos_d n current_time) = \<lfloor>wave_pos_d n current_time\<rfloor>"
    using wave_pos_d_nonneg [of n current_time] by (simp add: py_int_def)
  then show ?thesis
    using nn by (simp add: wave_color_def wave_colors_def nat_mod_distrib)
qed

lemma blend_color_d_one:
  assumes "c2 \<in> set wave_colors"
  shows "blend_color_d c1 c2 1 = c2"
proof -
  have z: "fl (real_of_int 0) = 0" by (simp add: fl_zero)
  have b: "fl (real_of_int 255) = 255" using fl_of_int [of 255] by simp
  have b': "fl 255 = 255" using b by simp
  show ?thesis
    using assms
    by (cases c1) (auto simp: wave_colors_def blend_color_d_def fl_zero b' py_int_def)
qed

text \<open>
  Claim C8. Within one wave-effect frame, with the distance \<^verbatim>\<open>abs(i - wave_pos)\<close> as
  the program computes it, an LED at distance \<open>\<ge> 3\<close> is set to warm white
  \<open>(255, 244, 229)\<close>; an LED at distance below \<open>3\<close> is set to the blend of warm white
  towards the wave colour with factor \<open>1 - distance / 3\<close>, where the wave colour is entry
  \<open>floor wavePos mod 3\<close> of the palette blue, green, yellow; an LED at distance \<open>0\<close>
  shows the wave colour itself.
\<close>

theorem wave_frame_leds:
  assumes "length np = n" and "i < n"
  shows "\<exists>np'. wave_frame_d n current_time np = Inr np'
           \<and> wave_colors = [(0, 0, 255), (0, 255, 0), (255, 255, 0)]
           \<and> (3 \<le> \<bar>fl (fl (real i) - wave_pos_d n current_time)\<bar> \<longrightarrow> np' ! i = (255, 244, 229))
           \<and> (\<bar>fl (fl (real i) - wave_pos_d n current_time)\<bar> < 3 \<longrightarrow>
                np' ! i = blend_color_d (255, 244, 229)
                            (wave_colors ! (nat \<lfloor>wave_pos_d n current_time\<rfloor> mod 3))
                            (fl (1 - fl (\<bar>fl (fl (real i) - wave_pos_d n current_time)\<bar> / 3))))
           \<and> (\<bar>fl (fl (real i) - wave_pos_d n current_time)\<bar> = 0 \<longrightarrow>
                np' ! i = wave_colors ! (nat \<lfloor>wave_pos_d n current_time\<rfloor> mod 3))
           \<and> blend_color_d (ra, ga, ba) (rb, gb, bb) f =
                (py_int (fl (fl (fl (1 - f) * fl (real_of_int ra)) + fl (f * fl (real_of_int rb)))),
                 py_int (fl (fl (fl (1 - f) * fl (real_of_int ga)) + fl (f * fl (real_of_int gb)))),
                 py_int (fl (fl (fl (1 - f) * fl (real_of_int ba)) + fl (f * fl (real_of_int bb)))))
           \<and> wave_pos_d n current_time =
                fl (fl (real_of_int (current_time mod 10000) / 10000) * fl (real n))"
proof -
  let ?wp = "wave_pos_d n current_time"
  let ?wc = "wave_colors ! (nat \<lfloor>?wp\<rfloor> mod 3)"
  let ?d = "\<bar>fl (fl (real i) - ?wp)\<bar>"
  from wave_frame_d_result [OF assms(1), of current_time] obtain np' where
    r: "wave_frame_d n current_time np = Inr np'"
    and v: "\<forall>i<n. np' ! i = wave_led_d ?wp (wave_color ?wp) i"
    by blast
  have e: "np' ! i = wave_led_d ?wp ?wc i"
    using v assms(2) by (simp add: wave_color_d_floor)
  have far: "np' ! i = (255, 244, 229)" if "3 \<le> ?d"
    using that unfolding e by (simp add: wave_led_d_def threshold_def warm_white_def)
  have near: "np' ! i = blend_color_d (255, 244, 229) ?wc (fl (1 - fl (?d / 3)))"
    if "?d < 3"
    using that unfolding e by (simp add: wave_led_d_def threshold_def warm_white_def)
  have "nat \<lfloor>?wp\<rfloor> mod 3 < length wave_colors" by (simp add: wave_colors_def)
  then have mem: "?wc \<in> set wave_colors" by (rule nth_mem)
  have centre: "np' ! i = ?wc" if z: "?d = 0"
  proof -
    have "?d < 3" using z by simp
    moreover have "fl 1 = 1" using fl_of_int [of 1] by simp
    ultimately show ?thesis
      using near blend_color_d_one [OF mem] unfolding z by (simp add: fl_zero)
  qed
  have bl: "blend_color_d (ra, ga, ba) (rb, gb, bb) f =
                (py_int (fl (fl (fl (1 - f) * fl (real_of_int ra)) + fl (f * fl (real_of_int rb)))),
                 py_int (fl (fl (fl (1 - f) * fl (real_of_int ga)) + fl (f * fl (real_of_int gb)))),
                 py_int (fl (fl (fl (1 - f) * fl (real_of_int ba)) + fl (f * fl (real_of_int bb)))))"
    by (simp add: blend_color_d_def)
  have wpd: "?wp = fl (fl (real_of_int (current_time mod 10000) / 10000) * fl (real n))"
    by (simp add: wave_pos_d_def wave_phase_d_def wave_period_ms_def)
  have wcs: "wave_colors = [(0, 0, 255), (0, 255, 0), (255, 255, 0)]"
    by (simp add: wave_colors_def)
  show ?thesis
    using r wcs far near centre bl wpd by (intro exI [of _ np']) blast
qed

theorem wave_frame_leds_witness:
  "length (replicate 171 ((0, 0, 0) :: rgb)) = 171
   \<and> wave_pos_d 171 0 = 0
   \<and> (\<exists>np'. wave_frame_d 171 0 (replicate 171 (0, 0, 0)) = Inr np'
          \<and> np' ! 0 = (0, 0, 255))
   \<and> (\<exists>np'. wave_frame_d 171 0 (replicate 171 (0, 0, 0)) = Inr np'
          \<and> np' ! 1 = (84, 81, 246))
   \<and> (\<exists>np'. wave_frame_d 171 0 (replicate 171 (0, 0, 0)) = Inr np'
          \<and> np' ! 3 = (255, 244, 229))
   \<and> length (replicate 100 ((0, 0, 0) :: rgb)) = 100
   \<and> wave_pos_d 100 2900 = 8162774324609023 / 281474976710656
   \<and> \<bar>fl (fl (real 26) - wave_pos_d 100 2900)\<bar> = 844424930131967 / 281474976710656
   \<and> (\<exists>np'. wave_frame_d 100 2900 (replicate 100 (0, 0, 0)) = Inr np'
          \<and> np' ! 26 = blend_color_d (255, 244, 229) (0, 255, 0) (11 / 9007199254740992)
          \<and> np' ! 26 = (254, 244, 228))"
proof -
  have f1: "fl (171) = 171"
    by (rule fl_eval [where k = "7" and n = "6016527627190272"])
       (simp_all add: pow2_def rne_def Let_def)
  have f2: "fl (1) = 1"
    by (rule fl_eval [where k = "0" and n = "4503599627370496"])
       (simp_all add: pow2_def rne_def Let_def)
  have f3: "fl (255) = 255"
    by (rule fl_eval [where k = "7" and n = "8972014882652160"])
       (simp_all add: pow2_def rne_def Let_def)
  have f4: "fl (244) = 244"
    by (rule fl_eval [where k = "7" and n = "8584986789675008"])
       (simp_all add: pow2_def rne_def Let_def)
  have f5: "fl (229) = 229"
    by (rule fl_eval [where k = "7" and n = "8057221208342528"])
       (simp_all add: pow2_def rne_def Let_def)
  have f6: "fl (1 / 3) = 6004799503160661 / 18014398509481984"
    by (rule fl_eval [where k = "- 2" and n = "6004799503160661"])
       (simp_all add: pow2_def rne_def Let_def)
  have f7: "fl (12009599006321323 / 18014398509481984) = 3002399751580331 / 4503599627370496"
    by (rule fl_eval [where k = "- 1" and n = "6004799503160662"])
       (simp_all add: pow2_def rne_def Let_def)
  have f8: "fl (1501199875790165 / 4503599627370496) = 1501199875790165 / 4503599627370496"
    by (rule fl_eval [where k = "- 2" and n = "6004799503160660"])
       (simp_all add: pow2_def rne_def Let_def)
  have f9: "fl (382805968326492075 / 4503599627370496) = 5981343255101439 / 70368744177664"
    by (rule fl_eval [where k = "6" and n = "5981343255101439"])
       (simp_all add: pow2_def rne_def Let_def)
  have f10: "fl (5981343255101439 / 70368744177664) = 5981343255101439 / 70368744177664"
    by (rule fl_eval [where k = "6" and n = "5981343255101439"])
       (simp_all add: pow2_def rne_def Let_def)
  have f11: "fl (91573192423200065 / 1125899906842624) = 1430831131612501 / 17592186044416"
    by (rule fl_eval [where k = "6" and n = "5723324526450004"])
       (simp_all add: pow2_def rne_def Let_def)
  have f12: "fl (1430831131612501 / 17592186044416) = 1430831131612501 / 17592186044416"
    by (rule fl_eval [where k = "6" and n = "5723324526450004"])
       (simp_all add: pow2_def rne_def Let_def)
  have f13: "fl (343774771555947785 / 4503599627370496) = 1342870201390421 / 17592186044416"
    by (rule fl_eval [where k = "6" and n = "5371480805561684"])
       (simp_all add: pow2_def rne_def Let_def)
  have f14: "fl (765611936652984405 / 4503599627370496) = 5981343255101441 / 35184372088832"
    by (rule fl_eval [where k = "7" and n = "5981343255101441"])
       (simp_all add: pow2_def rne_def Let_def)
  have f15: "fl (8667083657882283 / 35184372088832) = 8667083657882283 / 35184372088832"
    by (rule fl_eval [where k = "7" and n = "8667083657882283"])
       (simp_all add: pow2_def rne_def Let_def)
  have f16: "fl (3) = 3"
    by (rule fl_eval [where k = "1" and n = "6755399441055744"])
       (simp_all add: pow2_def rne_def Let_def)
  have f17: "fl (29 / 100) = 5224175567749775 / 18014398509481984"
    by (rule fl_eval [where k = "- 2" and n = "5224175567749775"])
       (simp_all add: pow2_def rne_def Let_def)
  have f18: "fl (100) = 100"
    by (rule fl_eval [where k = "6" and n = "7036874417766400"])
       (simp_all add: pow2_def rne_def Let_def)
  have f19: "fl (130604389193744375 / 4503599627370496) = 8162774324609023 / 281474976710656"
    by (rule fl_eval [where k = "4" and n = "8162774324609023"])
       (simp_all add: pow2_def rne_def Let_def)
  have f20: "fl (26) = 26"
    by (rule fl_eval [where k = "4" and n = "7318349394477056"])
       (simp_all add: pow2_def rne_def Let_def)
  have f21: "fl (- (844424930131967 / 281474976710656)) = - (844424930131967 / 281474976710656)"
    by (rule fl_eval [where k = "1" and n = "- 6755399441055736"])
       (simp_all add: pow2_def rne_def Let_def)
  have f22: "fl (844424930131967 / 844424930131968) = 9007199254740981 / 9007199254740992"
    by (rule fl_eval [where k = "- 1" and n = "9007199254740981"])
       (simp_all add: pow2_def rne_def Let_def)
  have f23: "fl (11 / 9007199254740992) = 11 / 9007199254740992"
    by (rule fl_eval [where k = "- 50" and n = "6192449487634432"])
       (simp_all add: pow2_def rne_def Let_def)
  have f24: "fl (9007199254740981 / 9007199254740992) = 9007199254740981 / 9007199254740992"
    by (rule fl_eval [where k = "- 1" and n = "9007199254740981"])
       (simp_all add: pow2_def rne_def Let_def)
  have f25: "fl (2296835809958950155 / 9007199254740992) = 8972014882652149 / 35184372088832"
    by (rule fl_eval [where k = "7" and n = "8972014882652149"])
       (simp_all add: pow2_def rne_def Let_def)
  have f26: "fl (8972014882652149 / 35184372088832) = 8972014882652149 / 35184372088832"
    by (rule fl_eval [where k = "7" and n = "8972014882652149"])
       (simp_all add: pow2_def rne_def Let_def)
  have f27: "fl (549439154539199841 / 2251799813685248) = 4292493394837499 / 17592186044416"
    by (rule fl_eval [where k = "7" and n = "8584986789674998"])
       (simp_all add: pow2_def rne_def Let_def)
  have f28: "fl (2805 / 9007199254740992) = 2805 / 9007199254740992"
    by (rule fl_eval [where k = "- 42" and n = "6168260231823360"])
       (simp_all add: pow2_def rne_def Let_def)
  have f29: "fl (2197756618156802293 / 9007199254740992) = 8584986789675009 / 35184372088832"
    by (rule fl_eval [where k = "7" and n = "8584986789675009"])
       (simp_all add: pow2_def rne_def Let_def)
  have f30: "fl (2062648629335684649 / 9007199254740992) = 4028610604171259 / 17592186044416"
    by (rule fl_eval [where k = "7" and n = "8057221208342518"])
       (simp_all add: pow2_def rne_def Let_def)
  have f31: "fl (4028610604171259 / 17592186044416) = 4028610604171259 / 17592186044416"
    by (rule fl_eval [where k = "7" and n = "8057221208342518"])
       (simp_all add: pow2_def rne_def Let_def)
  have len: "length (replicate 171 ((0, 0, 0) :: rgb)) = 171" by simp
  have len2: "length (replicate 100 ((0, 0, 0) :: rgb)) = 100" by simp
  have wp: "wave_pos_d 171 0 = 0"
    by (simp add: wave_pos_d_def wave_phase_d_def fl_zero)
  have wp2: "wave_pos_d 100 2900 = 8162774324609023 / 281474976710656"
    by (simp add: wave_pos_d_def wave_phase_d_def wave_period_ms_def f1 f2 f3 f4 f5 f6 f7 f8 f9 f10 f11 f12 f13 f14 f15 f16 f17 f18 f19 f20 f21 f22 f23 f24 f25 f26 f27 f28 f29 f30 f31)
  have d2: "\<bar>fl (fl (real 26) - wave_pos_d 100 2900)\<bar> = 844424930131967 / 281474976710656"
    unfolding wp2 by (simp add: f1 f2 f3 f4 f5 f6 f7 f8 f9 f10 f11 f12 f13 f14 f15 f16 f17 f18 f19 f20 f21 f22 f23 f24 f25 f26 f27 f28 f29 f30 f31)
  have b1: "blend_color_d (255, 244, 229) (0, 0, 255) (3002399751580331 / 4503599627370496) = (84, 81, 246)"
    by (simp add: blend_color_d_def py_int_def fl_zero f1 f2 f3 f4 f5 f6 f7 f8 f9 f10 f11 f12 f13 f14 f15 f16 f17 f18 f19 f20 f21 f22 f23 f24 f25 f26 f27 f28 f29 f30 f31)
  have b2: "blend_color_d (255, 244, 229) (0, 255, 0) (11 / 9007199254740992) = (254, 244, 228)"
    by (simp add: blend_color_d_def py_int_def fl_zero f1 f2 f3 f4 f5 f6 f7 f8 f9 f10 f11 f12 f13 f14 f15 f16 f17 f18 f19 f20 f21 f22 f23 f24 f25 f26 f27 f28 f29 f30 f31)
  have "\<exists>np'. wave_frame_d 171 0 (replicate 171 (0, 0, 0)) = Inr np' \<and> np' ! 0 = (0, 0, 255)"
    using wave_frame_leds [OF len, where i = 0 and current_time = 0 and ra = 0 and ga = 0 and ba = 0 and rb = 0 and gb = 0 and bb = 0 and f = 0] by (auto simp: wp wave_colors_def fl_zero)
  moreover
  have "\<exists>np'. wave_frame_d 171 0 (replicate 171 (0, 0, 0)) = Inr np' \<and> np' ! 1 = (84, 81, 246)"
    using wave_frame_leds [OF len, where i = 1 and current_time = 0 and ra = 0 and ga = 0 and ba = 0 and rb = 0 and gb = 0 and bb = 0 and f = 0] by (auto simp: wp wave_colors_def fl_zero b1 f1 f2 f3 f4 f5 f6 f7 f8 f9 f10 f11 f12 f13 f14 f15 f16 f17 f18 f19 f20 f21 f22 f23 f24 f25 f26 f27 f28 f29 f30 f31)
  moreover
  have "\<exists>np'. wave_frame_d 171 0 (replicate 171 (0, 0, 0)) = Inr np' \<and> np' ! 3 = (255, 244, 229)"
    using wave_frame_leds [OF len, where i = 3 and current_time = 0 and ra = 0 and ga = 0 and ba = 0 and rb = 0 and gb = 0 and bb = 0 and f = 0] by (auto simp: wp fl_zero f1 f2 f3 f4 f5 f6 f7 f8 f9 f10 f11 f12 f13 f14 f15 f16 f17 f18 f19 f20 f21 f22 f23 f24 f25 f26 f27 f28 f29 f30 f31)
  moreover
  have "\<exists>np'. wave_frame_d 100 2900 (replicate 100 (0, 0, 0)) = Inr np'
          \<and> np' ! 26 = blend_color_d (255, 244, 229) (0, 255, 0) (11 / 9007199254740992)
          \<and> np' ! 26 = (254, 244, 228)"
    using wave_frame_leds [OF len2, where i = 26 and current_time = 2900 and ra = 0 and ga = 0 and ba = 0 and rb = 0 and gb = 0 and bb = 0 and f = 0] unfolding d2 unfolding wp2
    by (auto simp: wave_colors_def b2 f1 f2 f3 f4 f5 f6 f7 f8 f9 f10 f11 f12 f13 f14 f15 f16 f17 f18 f19 f20 f21 f22 f23 f24 f25 f26 f27 f28 f29 f30 f31)
  ultimately show ?thesis using len len2 wp wp2 d2 by simp
qed

end
